theory Spec2Isabelle
  imports Main "HOL-Library.Word"
begin

section \<open>The webhook of api/webhook.js: Webflow form submissions forwarded to Zoho CRM\<close>

text \<open>
  The development embeds the first listing of \<^verbatim>\<open>src/api/webhook.js\<close> (the
  fetch-based handler, lines 1 to 244); the older listing that follows it in the same file,
  written with axios, is not embedded. Console logging is left out; everything else that
  a function does is part of its model: the module-level token cache is passed in and
  returned, each reading of the clock and each reply of a remote server is a field of an
  explicit \<open>world\<close>, every \<^verbatim>\<open>throw\<close> is a value of a sum type, and each remote
  request that is sent is recorded in a trace. The fields of a form are strings or missing;
  the properties of the two remote replies have the types given with their records, each
  of them possibly \<^verbatim>\<open>null\<close> or missing, and numbers are computed as doubles. Values
  of other JSON types in those places are outside the model.
\<close>

subsection \<open>JavaScript strings\<close>

text \<open>
  A JavaScript string is a sequence of UTF-16 code units. String literals of the source are
  ASCII and are written through \<open>lit\<close>.
\<close>

type_synonym jschar = "16 word"
type_synonym jsstring = "jschar list"

definition lit :: "string \<Rightarrow> jsstring" where
  "lit s = map of_char s"

text \<open>
  The code units that \<^verbatim>\<open>String.prototype.trim\<close> strips and that \<^verbatim>\<open>\s\<close>
  matches in a regular expression: ECMAScript's WhiteSpace and LineTerminator productions
  (TAB, LF, VT, FF, CR, SP, NBSP, the space separators of Unicode, LS, PS and the BOM).
\<close>

definition isWhiteSpace :: "jschar \<Rightarrow> bool" where
  "isWhiteSpace c \<longleftrightarrow>
     c = 0x09 \<or> c = 0x0A \<or> c = 0x0B \<or> c = 0x0C \<or> c = 0x0D \<or> c = 0x20 \<or> c = 0xA0 \<or>
     c = 0x1680 \<or> (0x2000 \<le> c \<and> c \<le> 0x200A) \<or> c = 0x2028 \<or> c = 0x2029 \<or>
     c = 0x202F \<or> c = 0x205F \<or> c = 0x3000 \<or> c = 0xFEFF"

definition trim :: "jsstring \<Rightarrow> jsstring" where
  "trim s = rev (dropWhile isWhiteSpace (rev (dropWhile isWhiteSpace s)))"

text \<open>
  \<^verbatim>\<open>s.split(sep)\<close> for a separator of one code unit: the pieces between the
  occurrences of the separator, so that a string without it (the empty one too) gives a
  single piece.
\<close>

fun split :: "jschar \<Rightarrow> jsstring \<Rightarrow> jsstring list" where
  "split sep [] = [[]]"
| "split sep (c # cs) =
     (if c = sep then [] # split sep cs
      else (case split sep cs of [] \<Rightarrow> [[c]] | p # ps \<Rightarrow> (c # p) # ps))"

text \<open>\<^verbatim>\<open>parts.join(sep)\<close>.\<close>

fun join :: "jsstring \<Rightarrow> jsstring list \<Rightarrow> jsstring" where
  "join sep [] = []"
| "join sep [p] = p"
| "join sep (p # q # ps) = p @ sep @ join sep (q # ps)"

text \<open>
  An optional string stands for a field of the form data, which is a string or is missing.
  It is truthy when it is a non-empty string.
\<close>

fun truthy_field :: "jsstring option \<Rightarrow> bool" where
  "truthy_field None = False"
| "truthy_field (Some s) = (s \<noteq> [])"

text \<open>\<^verbatim>\<open>v || null\<close> and \<^verbatim>\<open>v || 'default'\<close> on such a property.\<close>

definition or_null :: "jsstring option \<Rightarrow> jsstring option" where
  "or_null v = (if truthy_field v then v else None)"

fun or_else :: "jsstring option \<Rightarrow> jsstring \<Rightarrow> jsstring" where
  "or_else None d = d"
| "or_else (Some s) d = (if s \<noteq> [] then s else d)"

subsection \<open>Regular expressions of the shape the source uses\<close>

text \<open>
  The one regular expression of the source, \<^verbatim>\<open>/^[^\s@]+@[^\s@]+\.[^\s@]+$/\<close>, is a
  sequence of character classes, each taken once or with \<^verbatim>\<open>+\<close>, anchored at both
  ends (there is no \<^verbatim>\<open>m\<close> flag, so \<^verbatim>\<open>^\<close> and \<^verbatim>\<open>$\<close> are the ends of
  the input). \<open>test\<close> is a backtracking matcher for such sequences; \<^verbatim>\<open>+\<close> is greedy,
  so it first tries to take one more code unit.
\<close>

datatype atom = One "jschar \<Rightarrow> bool" | Many1 "jschar \<Rightarrow> bool"

fun test :: "atom list \<Rightarrow> jsstring \<Rightarrow> bool" where
  "test [] s = (s = [])"
| "test (a # as) [] = False"
| "test (One p # as) (c # cs) = (p c \<and> test as cs)"
| "test (Many1 p # as) (c # cs) = (p c \<and> (test (Many1 p # as) cs \<or> test as cs))"

definition notSpaceOrAt :: "jschar \<Rightarrow> bool" where
  "notSpaceOrAt c \<longleftrightarrow> \<not> isWhiteSpace c \<and> c \<noteq> 0x40"

definition emailRegex :: "atom list" where
  "emailRegex =
     [Many1 notSpaceOrAt, One (\<lambda>c. c = 0x40), Many1 notSpaceOrAt, One (\<lambda>c. c = 0x2E),
      Many1 notSpaceOrAt]"

subsection \<open>Form data, validation and the lead mapping\<close>

text \<open>
  \<^verbatim>\<open>formData\<close> is an object used as a dictionary from field names to strings: that is
  what \<open>parseFormData\<close> builds from a URL-encoded body, and what a JSON body of string
  fields is. A missing field reads as \<^verbatim>\<open>undefined\<close>.
\<close>

type_synonym form_data = "jsstring \<rightharpoonup> jsstring"

definition field_of :: "form_data \<Rightarrow> string \<Rightarrow> jsstring option" where
  "field_of formData k = formData (lit k)"

text \<open>
  \<^verbatim>\<open>!v || v.trim().length === 0\<close>: the field is missing, empty, or only white space.
\<close>

fun blank :: "jsstring option \<Rightarrow> bool" where
  "blank None = True"
| "blank (Some s) = (s = [] \<or> length (trim s) = 0)"

text \<open>\<^verbatim>\<open>v && !emailRegex.test(v)\<close>.\<close>

fun malformed :: "jsstring option \<Rightarrow> bool" where
  "malformed None = False"
| "malformed (Some s) = (s \<noteq> [] \<and> \<not> test emailRegex s)"

definition validateFormData :: "form_data \<Rightarrow> jsstring list" where
  "validateFormData formData =
     (let errors = [];
          errors = (if blank (field_of formData ''name'')
                    then errors @ [lit ''Name is required''] else errors);
          errors = (if blank (field_of formData ''email'')
                    then errors @ [lit ''Email is required''] else errors);
          errors = (if malformed (field_of formData ''email'')
                    then errors @ [lit ''Invalid email format''] else errors)
      in errors)"

record lead =
  First_Name :: "jsstring option"
  Last_Name :: jsstring
  Email :: "jsstring option"
  Phone :: "jsstring option"
  Company :: "jsstring option"
  Lead_Source :: jsstring
  Lead_Status :: jsstring
  Description :: "jsstring option"

text \<open>
  \<open>nameParts[0]\<close> is \<^verbatim>\<open>undefined\<close> on an empty array, hence the optional first
  name; \<open>formType\<close> is optional because the function can be called without it. The
  \<^verbatim>\<open>switch\<close> compares with strict equality.
\<close>

definition mapFormDataToZohoLead :: "form_data \<Rightarrow> jsstring option \<Rightarrow> lead" where
  "mapFormDataToZohoLead formData formType =
     (let nameParts = split 0x20 (or_else (field_of formData ''name'') (lit ''Unknown User''));
          firstName = (case nameParts of [] \<Rightarrow> None | p # _ \<Rightarrow> Some p);
          lastName = or_else (Some (join (lit '' '') (drop 1 nameParts))) (lit ''User'');
          baseData = \<lparr>First_Name = firstName,
                      Last_Name = lastName,
                      Email = field_of formData ''email'',
                      Phone = or_null (field_of formData ''phone''),
                      Company = or_null (field_of formData ''company''),
                      Lead_Source = lit ''Website'',
                      Lead_Status = lit ''Not Contacted'',
                      Description = or_null (field_of formData ''message'')\<rparr>
      in if formType = Some (lit ''contact'')
         then baseData\<lparr>Lead_Source := lit ''Website - Contact Form''\<rparr>
         else if formType = Some (lit ''newsletter'')
         then baseData\<lparr>Lead_Source := lit ''Website - Newsletter'',
                       Lead_Status := lit ''Qualified''\<rparr>
         else baseData)"

subsection \<open>Properties that may be missing, and numbers\<close>

text \<open>
  A property read from a parsed JSON reply is \<^verbatim>\<open>undefined\<close> when the reply has no such
  property, \<^verbatim>\<open>null\<close> when the reply says so, or a value. The two missing cases behave
  differently where the source prints them or reads a property of them.
\<close>

datatype 'a nullable = Undefined | Null | Val 'a

text \<open>The truthiness of a property that is a string or missing.\<close>

fun truthy :: "jsstring nullable \<Rightarrow> bool" where
  "truthy (Val s) = (s \<noteq> [])"
| "truthy Undefined = False"
| "truthy Null = False"

text \<open>
  A number of JavaScript is an IEEE double. The ones modelled are NaN, the two infinities
  and the finite doubles of integral value (\<open>Fin n\<close> is a double when
  \<open>nearest n = n\<close>); doubles with a fraction and the sign of zero are left out.
  \<open>bits n\<close> is the length of \<open>n\<close> in binary. \<open>nearest x\<close> is the integer that the
  exact result \<open>x\<close> of an operation is rounded to: \<open>x\<close> itself below \<open>2^53\<close>, otherwise
  the nearest integer of 53 significant bits, the one with an even last bit in a tie. A
  rounded result of \<open>2^1024\<close> or more overflows to an infinity.
\<close>

datatype jsnum = NaN | NegInf | PosInf | Fin int

fun bits :: "nat \<Rightarrow> nat" where
  "bits n = (if n = 0 then 0 else Suc (bits (n div 2)))"

declare bits.simps [simp del]

definition nearest :: "int \<Rightarrow> int" where
  "nearest x =
     (if \<bar>x\<bar> < 2 ^ 53 then x
      else (let a = nat \<bar>x\<bar>; u = 2 ^ (bits a - 53); q = a div u; r = a mod u
            in sgn x * int (if 2 * r < u \<or> (2 * r = u \<and> even q) then q * u else (q + 1) * u)))"

definition to_double :: "int \<Rightarrow> jsnum" where
  "to_double x =
     (if 2 ^ 1024 \<le> \<bar>nearest x\<bar> then (if 0 < x then PosInf else NegInf) else Fin (nearest x))"

fun negate :: "jsnum \<Rightarrow> jsnum" where
  "negate NaN = NaN"
| "negate NegInf = PosInf"
| "negate PosInf = NegInf"
| "negate (Fin a) = Fin (- a)"

fun add :: "jsnum \<Rightarrow> jsnum \<Rightarrow> jsnum" where
  "add (Fin a) (Fin b) = to_double (a + b)"
| "add NaN y = NaN"
| "add x NaN = NaN"
| "add PosInf NegInf = NaN"
| "add NegInf PosInf = NaN"
| "add PosInf y = PosInf"
| "add x PosInf = PosInf"
| "add NegInf y = NegInf"
| "add x NegInf = NegInf"

fun signum :: "jsnum \<Rightarrow> int" where
  "signum NaN = 0"
| "signum NegInf = - 1"
| "signum PosInf = 1"
| "signum (Fin a) = sgn a"

fun mul :: "jsnum \<Rightarrow> jsnum \<Rightarrow> jsnum" where
  "mul (Fin a) (Fin b) = to_double (a * b)"
| "mul NaN y = NaN"
| "mul x NaN = NaN"
| "mul x y =
     (if signum x * signum y = 0 then NaN
      else if 0 < signum x * signum y then PosInf else NegInf)"

text \<open>The comparison \<^verbatim>\<open>x < y\<close>: false as soon as one side is NaN.\<close>

fun lt :: "jsnum \<Rightarrow> jsnum \<Rightarrow> bool" where
  "lt (Fin a) (Fin b) = (a < b)"
| "lt NaN y = False"
| "lt x NaN = False"
| "lt x NegInf = False"
| "lt PosInf y = False"
| "lt NegInf y = True"
| "lt x PosInf = True"

instantiation jsnum :: "{plus, minus, times, ord}"
begin

definition plus_jsnum :: "jsnum \<Rightarrow> jsnum \<Rightarrow> jsnum" where
  "x + y = add x y"

definition minus_jsnum :: "jsnum \<Rightarrow> jsnum \<Rightarrow> jsnum" where
  "x - y = add x (negate y)"

definition times_jsnum :: "jsnum \<Rightarrow> jsnum \<Rightarrow> jsnum" where
  "x * y = mul x y"

definition less_jsnum :: "jsnum \<Rightarrow> jsnum \<Rightarrow> bool" where
  "x < y \<longleftrightarrow> lt x y"

definition less_eq_jsnum :: "jsnum \<Rightarrow> jsnum \<Rightarrow> bool" where
  "x \<le> y \<longleftrightarrow> lt x y \<or> (x = y \<and> x \<noteq> NaN)"

instance ..

end

text \<open>
  What an arithmetic operator makes of a property that is a number or missing:
  \<^verbatim>\<open>undefined\<close> is NaN, \<^verbatim>\<open>null\<close> is zero.
\<close>

fun to_number :: "jsnum nullable \<Rightarrow> jsnum" where
  "to_number Undefined = NaN"
| "to_number Null = Fin 0"
| "to_number (Val n) = n"

subsection \<open>The world outside the function\<close>

text \<open>
  What \<^verbatim>\<open>await fetch(...)\<close> followed by \<^verbatim>\<open>await response.json()\<close> can come to:
  \<open>fetch\<close> rejects (a network error), the body is not JSON, or there is a response with
  its \<open>ok\<close> flag and its parsed body. A parsed body is \<open>None\<close> when it is the JSON
  \<^verbatim>\<open>null\<close>, and otherwise the record of the properties that the source reads (a body
  that is a number, a string or an array has none of them, like the empty object).
\<close>

datatype 'a outcome = Rejected | NotJSON | Response bool "'a option"

text \<open>
  The body of the token endpoint's reply, \<^verbatim>\<open>{access_token, expires_in, ...}\<close>: a token
  that is a string, and a lifetime in seconds that is a number, or missing each. The
  \<open>error\<close> and \<open>message\<close> properties of the two replies reach the console only and are
  left out.
\<close>

record token_data =
  access_token :: "jsstring nullable"
  expires_in :: "jsnum nullable"

text \<open>
  The body of the CRM's reply, \<^verbatim>\<open>{data: [{status, details: {id}}, ...]}\<close>: \<open>data\<close>
  is a list, whose entries are objects or \<^verbatim>\<open>null\<close>, or is missing; \<open>status\<close> and
  \<open>id\<close> are strings or missing; \<open>details\<close> is an object or missing.
\<close>

record crm_details =
  id_field :: "jsstring nullable"

record crm_entry =
  status :: "jsstring nullable"
  details :: "crm_details nullable"

record crm_data =
  data :: "crm_entry option list nullable"

text \<open>
  One run of the handler reads the clock at most three times (the validity test of the
  cache, the computation of the expiry, the timestamp of the response), sends at most one
  request to each server, and parses at most one URL-encoded body with the platform's
  \<open>URLSearchParams\<close>. The first two readings take part in the arithmetic of numbers; the
  third is only printed.
\<close>

record world =
  now_check :: jsnum
  auth_reply :: "token_data outcome"
  now_store :: jsnum
  crm_reply :: "crm_data outcome"
  now_respond :: int
  URLSearchParams :: "jsstring \<Rightarrow> (jsstring \<times> jsstring) list"

text \<open>The requests sent: the token exchange, and the creation of a lead with its
  \<open>Authorization\<close> header and the one lead of its \<open>data\<close> list.\<close>

datatype event = TokenExchange | LeadPost jsstring lead

datatype js_error = Error jsstring | TypeError jsstring

fun message :: "js_error \<Rightarrow> jsstring" where
  "message (Error m) = m"
| "message (TypeError m) = m"

text \<open>
  What V8 throws when a property is read of \<^verbatim>\<open>null\<close> or of \<^verbatim>\<open>undefined\<close>.
\<close>

definition cannot_read :: "string \<Rightarrow> string \<Rightarrow> js_error" where
  "cannot_read what property =
     TypeError (lit (''Cannot read properties of '' @ what @ '' (reading '' @ [CHR 0x27]
                       @ property @ [CHR 0x27] @ '')''))"

subsection \<open>The token cache and its provider\<close>

record cache =
  token :: "jsstring nullable"
  expires :: jsnum

definition accessTokenCache :: cache where
  "accessTokenCache = \<lparr>token = Null, expires = Fin 0\<rparr>"

text \<open>
  The reading of the cache that lines 22 to 24 make at the instant \<open>now\<close>: the token
  when the test of line 22 holds, nothing otherwise.
\<close>

definition cached_token :: "cache \<Rightarrow> jsnum \<Rightarrow> jsstring option" where
  "cached_token c now =
     (if truthy (token c) \<and> now < expires c
      then (case token c of Val t \<Rightarrow> Some t | _ \<Rightarrow> None)
      else None)"

text \<open>Lines 49 and 50, the writing of the cache.\<close>

definition store_token :: "jsstring nullable \<Rightarrow> jsnum nullable \<Rightarrow> jsnum \<Rightarrow> cache \<Rightarrow> cache" where
  "store_token tok ttl now c =
     c\<lparr>token := tok, expires := now + (to_number ttl * Fin 1000) - Fin 60000\<rparr>"

text \<open>
  \<open>getAccessToken\<close> returns its result (the token, or the error it throws), the cache
  it leaves and the requests it sent. Whatever is thrown inside its \<^verbatim>\<open>try\<close> is
  caught and replaced by the one error of line 55: the rejection of \<open>fetch\<close>, the
  failure of \<open>response.json()\<close>, the error of line 43, and the TypeError of reading
  \<open>data.error\<close> or of destructuring \<open>data\<close> when the body is \<^verbatim>\<open>null\<close>.
\<close>

definition getAccessToken :: "world \<Rightarrow> cache \<Rightarrow> (js_error + jsstring nullable) \<times> cache \<times> event list" where
  "getAccessToken w c =
     (if truthy (token c) \<and> now_check w < expires c then (Inr (token c), c, [])
      else
        (case auth_reply w of
           Rejected \<Rightarrow> (Inl (Error (lit ''Failed to authenticate with Zoho'')), c, [TokenExchange])
         | NotJSON \<Rightarrow> (Inl (Error (lit ''Failed to authenticate with Zoho'')), c, [TokenExchange])
         | Response ok None \<Rightarrow>
             (Inl (Error (lit ''Failed to authenticate with Zoho'')), c, [TokenExchange])
         | Response ok (Some d) \<Rightarrow>
             if \<not> ok
             then (Inl (Error (lit ''Failed to authenticate with Zoho'')), c, [TokenExchange])
             else (Inr (access_token d),
                   store_token (access_token d) (expires_in d) (now_store w) c,
                   [TokenExchange])))"

subsection \<open>The lead submitter\<close>

text \<open>A template literal prints a missing value as \<^verbatim>\<open>undefined\<close> or \<^verbatim>\<open>null\<close>.\<close>

definition authorization :: "jsstring nullable \<Rightarrow> jsstring" where
  "authorization accessToken =
     lit ''Zoho-oauthtoken ''
       @ (case accessToken of Undefined \<Rightarrow> lit ''undefined'' | Null \<Rightarrow> lit ''null'' | Val t \<Rightarrow> t)"

text \<open>
  The call of \<open>getAccessToken\<close> is inside the \<^verbatim>\<open>try\<close>, so its error too is replaced
  by the error of line 86, as is the TypeError of reading \<open>data.message\<close> of a
  \<^verbatim>\<open>null\<close> body on line 80. A \<^verbatim>\<open>null\<close> body of a response that is \<open>ok\<close> is
  returned as it is.
\<close>

definition createZohoLead :: "world \<Rightarrow> lead \<Rightarrow> cache \<Rightarrow> (js_error + crm_data option) \<times> cache \<times> event list" where
  "createZohoLead w leadData c =
     (case getAccessToken w c of
        (Inl e, c', tr) \<Rightarrow> (Inl (Error (lit ''Failed to create lead in Zoho CRM'')), c', tr)
      | (Inr accessToken, c', tr) \<Rightarrow>
          (let tr' = tr @ [LeadPost (authorization accessToken) leadData]
           in case crm_reply w of
                Rejected \<Rightarrow> (Inl (Error (lit ''Failed to create lead in Zoho CRM'')), c', tr')
              | NotJSON \<Rightarrow> (Inl (Error (lit ''Failed to create lead in Zoho CRM'')), c', tr')
              | Response ok d \<Rightarrow>
                  if \<not> ok
                  then (Inl (Error (lit ''Failed to create lead in Zoho CRM'')), c', tr')
                  else (Inr d, c', tr')))"

subsection \<open>The handler\<close>

text \<open>
  The body of a request is a string (URL-encoded) or an object of string fields (JSON,
  parsed by the platform).
\<close>

datatype req_body = Text jsstring | Fields form_data

record request =
  http_method :: jsstring
  body :: req_body

definition parseFormData :: "world \<Rightarrow> req_body \<Rightarrow> form_data" where
  "parseFormData w b =
     (case b of
        Text s \<Rightarrow> fold (\<lambda>(key, v) formData. formData(key \<mapsto> v)) (URLSearchParams w s) Map.empty
      | Fields formData \<Rightarrow> formData)"

text \<open>
  A response: \<open>End\<close> is the empty body, \<open>Failure e t\<close> is
  \<^verbatim>\<open>{success: false, error: e, timestamp: t}\<close> and \<open>Success m i t\<close> is
  \<^verbatim>\<open>{success: true, message: m, leadId: i, timestamp: t}\<close>. The timestamp is kept as
  the instant that \<open>toISOString\<close> prints.
\<close>

datatype payload = End | Failure jsstring int | Success jsstring "jsstring nullable" int

record response =
  status_code :: nat
  headers :: "(jsstring \<times> jsstring) list"
  payload :: payload

definition addCORSHeaders :: "(jsstring \<times> jsstring) list" where
  "addCORSHeaders =
     [(lit ''Access-Control-Allow-Origin'', lit ''*''),
      (lit ''Access-Control-Allow-Methods'', lit ''POST, OPTIONS''),
      (lit ''Access-Control-Allow-Headers'', lit ''Content-Type'')]"

definition respond :: "nat \<Rightarrow> payload \<Rightarrow> response" where
  "respond code p = \<lparr>status_code = code, headers = addCORSHeaders, payload = p\<rparr>"

text \<open>The \<^verbatim>\<open>catch\<close> of the handler: status 500 with
  \<^verbatim>\<open>error.message || 'An error occurred'\<close>.\<close>

definition caught :: "world \<Rightarrow> js_error \<Rightarrow> response" where
  "caught w e =
     respond 500 (Failure (or_else (Some (message e)) (lit ''An error occurred'')) (now_respond w))"

text \<open>
  Line 225 reads \<open>zohoResponse.data\<close>, which throws when the body is \<^verbatim>\<open>null\<close>; an
  array is truthy even when empty, its first entry is not when it is missing or
  \<^verbatim>\<open>null\<close>; line 229 reads \<open>details.id\<close>, which throws when the details are missing.
\<close>

definition handler :: "world \<Rightarrow> request \<Rightarrow> cache \<Rightarrow> response \<times> cache \<times> event list" where
  "handler w req c =
     (if http_method req = lit ''OPTIONS'' then (respond 200 End, c, [])
      else if http_method req \<noteq> lit ''POST''
      then (respond 405 (Failure (lit ''Method not allowed'') (now_respond w)), c, [])
      else
        (let formData = parseFormData w (body req);
             validationErrors = validateFormData formData
         in if length validationErrors > 0
            then (respond 400 (Failure (lit ''Validation failed: '' @ join (lit '', '') validationErrors)
                                       (now_respond w)), c, [])
            else
              (let formType = or_else (field_of formData ''form_type'') (lit ''general'');
                   zohoLeadData = mapFormDataToZohoLead formData (Some formType)
               in case createZohoLead w zohoLeadData c of
                    (Inl e, c', tr) \<Rightarrow> (caught w e, c', tr)
                  | (Inr None, c', tr) \<Rightarrow> (caught w (cannot_read ''null'' ''data''), c', tr)
                  | (Inr (Some zohoResponse), c', tr) \<Rightarrow>
                      (case data zohoResponse of
                         Val (Some entry # _) \<Rightarrow>
                           if status entry = Val (lit ''success'')
                           then (case details entry of
                                   Undefined \<Rightarrow> (caught w (cannot_read ''undefined'' ''id''), c', tr)
                                 | Null \<Rightarrow> (caught w (cannot_read ''null'' ''id''), c', tr)
                                 | Val d \<Rightarrow>
                                     (respond 200 (Success (lit ''Lead created successfully in Zoho CRM'')
                                                           (id_field d) (now_respond w)), c', tr))
                           else (caught w (Error (lit ''Failed to create lead in Zoho CRM'')), c', tr)
                       | _ \<Rightarrow> (caught w (Error (lit ''Failed to create lead in Zoho CRM'')), c', tr)))))"

subsection \<open>Two readings taken from the specification\<close>

text \<open>
  The specification speaks of the first white-space-delimited token of a name, and of a CRM
  reply that holds a list with exactly one entry whose status is \<^verbatim>\<open>"success"\<close> and
  whose details include an identifier. These two definitions follow those words, not the
  source; they are compared with what the source computes.
\<close>

definition spec_first_token :: "jsstring \<Rightarrow> jsstring" where
  "spec_first_token s = takeWhile (\<lambda>c. \<not> isWhiteSpace c) (dropWhile isWhiteSpace s)"


subsection \<open>Sample inputs\<close>


definition granting_world :: "jsstring \<Rightarrow> crm_data outcome \<Rightarrow> world" where
  "granting_world tok r =
     \<lparr>now_check = Fin 1000,
      auth_reply = Response True (Some \<lparr>access_token = Val tok, expires_in = Val (Fin 3600)\<rparr>),
      now_store = Fin 2000,
      crm_reply = r,
      now_respond = 3000,
      URLSearchParams = (\<lambda>s. [])\<rparr>"

definition mock_world :: "crm_data outcome \<Rightarrow> world" where
  "mock_world r = granting_world (lit ''tok'') r"


definition one_entry :: crm_data where
  "one_entry =
     \<lparr>data = Val [Some \<lparr>status = Val (lit ''success''),
                        details = Val \<lparr>id_field = Val (lit ''42'')\<rparr>\<rparr>]\<rparr>"

definition tabbed_name :: jsstring where
  "tabbed_name = lit ''Ann'' @ [0x09] @ lit ''Lee''"

section \<open>Facts about the string functions and the matcher\<close>

lemma split_nonempty: "split sep s \<noteq> []"
  by (induction s) (auto split: list.splits)

lemma split_shape:
  "split sep s = takeWhile (\<lambda>c. c \<noteq> sep) s #
     (case dropWhile (\<lambda>c. c \<noteq> sep) s of [] \<Rightarrow> [] | _ # r \<Rightarrow> split sep r)"
  by (induction s) (auto split: list.splits simp: split_nonempty)

lemma join_split: "join [sep] (split sep s) = s"
proof (induction s)
  case Nil
  show ?case by simp
next
  case (Cons c cs)
  show ?case
  proof (cases "c = sep")
    case True
    obtain p ps where "split sep cs = p # ps"
      using split_nonempty [of sep cs] by (cases "split sep cs") auto
    with True Cons show ?thesis by simp
  next
    case False
    obtain p ps where e: "split sep cs = p # ps"
      using split_nonempty [of sep cs] by (cases "split sep cs") auto
    with False Cons show ?thesis by (cases ps) auto
  qed
qed

lemma join_rest:
  "join [sep] (drop (Suc 0) (split sep s)) = drop (Suc 0) (dropWhile (\<lambda>c. c \<noteq> sep) s)"
proof (cases "dropWhile (\<lambda>c. c \<noteq> sep) s")
  case Nil
  show ?thesis unfolding split_shape [of sep s] Nil by simp
next
  case (Cons x r)
  show ?thesis unfolding split_shape [of sep s] Cons by (simp add: join_split)
qed

lemma first_piece: "(case split sep s of [] \<Rightarrow> None | p # _ \<Rightarrow> Some p) = Some (takeWhile (\<lambda>c. c \<noteq> sep) s)"
  by (subst split_shape) simp

lemma method_lits: "lit ''POST'' \<noteq> lit ''OPTIONS''"
  by (simp add: lit_def)

lemma all_dropWhile: "(\<forall>x\<in>set (dropWhile P s). P x) \<longleftrightarrow> (\<forall>x\<in>set s. P x)"
  by (induction s) auto

lemma trim_empty_iff: "trim s = [] \<longleftrightarrow> (\<forall>c\<in>set s. isWhiteSpace c)"
  by (simp add: trim_def dropWhile_eq_Nil_conv all_dropWhile)

lemma blank_iff: "blank v \<longleftrightarrow> (\<forall>s. v = Some s \<longrightarrow> (\<forall>c\<in>set s. isWhiteSpace c))"
  by (cases v) (auto simp: trim_empty_iff)

lemma test_One: "test (One p # as) s \<longleftrightarrow> (\<exists>c v. s = c # v \<and> p c \<and> test as v)"
  by (cases s) auto

lemma test_Many1:
  "test (Many1 p # as) s \<longleftrightarrow> (\<exists>u v. s = u @ v \<and> u \<noteq> [] \<and> (\<forall>x\<in>set u. p x) \<and> test as v)"
proof (induction s)
  case Nil
  show ?case by simp
next
  case (Cons c cs)
  show ?case
  proof
    assume "test (Many1 p # as) (c # cs)"
    then have pc: "p c" and alt: "test (Many1 p # as) cs \<or> test as cs" by auto
    from alt show "\<exists>u v. c # cs = u @ v \<and> u \<noteq> [] \<and> (\<forall>x\<in>set u. p x) \<and> test as v"
    proof
      assume "test (Many1 p # as) cs"
      with Cons obtain u v where "cs = u @ v" "u \<noteq> []" "\<forall>x\<in>set u. p x" "test as v" by auto
      with pc have "c # cs = (c # u) @ v \<and> c # u \<noteq> [] \<and> (\<forall>x\<in>set (c # u). p x) \<and> test as v" by simp
      then show ?thesis by blast
    next
      assume "test as cs"
      with pc have "c # cs = [c] @ cs \<and> [c] \<noteq> [] \<and> (\<forall>x\<in>set [c]. p x) \<and> test as cs" by simp
      then show ?thesis by blast
    qed
  next
    assume "\<exists>u v. c # cs = u @ v \<and> u \<noteq> [] \<and> (\<forall>x\<in>set u. p x) \<and> test as v"
    then obtain u v where uv: "c # cs = u @ v" "u \<noteq> []" "\<forall>x\<in>set u. p x" "test as v" by auto
    then obtain u' where u: "u = c # u'" by (cases u) auto
    with uv have pc: "p c" and cs: "cs = u' @ v" and pu: "\<forall>x\<in>set u'. p x" by auto
    show "test (Many1 p # as) (c # cs)"
    proof (cases "u' = []")
      case True
      with cs uv pc show ?thesis by simp
    next
      case False
      with cs pu uv Cons have "test (Many1 p # as) cs" by blast
      with pc show ?thesis by simp
    qed
  qed
qed

lemma emailRegex_shape:
  "test emailRegex s \<longleftrightarrow>
     (\<exists>local domain tld. s = local @ [0x40] @ domain @ [0x2E] @ tld
        \<and> local \<noteq> [] \<and> domain \<noteq> [] \<and> tld \<noteq> []
        \<and> (\<forall>x\<in>set (local @ domain @ tld). \<not> isWhiteSpace x \<and> x \<noteq> 0x40))"
  (is "?l \<longleftrightarrow> ?r")
proof
  assume ?l
  then obtain a r1 where 1: "s = a @ r1" "a \<noteq> []" "\<forall>x\<in>set a. notSpaceOrAt x"
      "test [One (\<lambda>c. c = 0x40), Many1 notSpaceOrAt, One (\<lambda>c. c = 0x2E), Many1 notSpaceOrAt] r1"
    unfolding emailRegex_def test_Many1 [of notSpaceOrAt] by blast
  then obtain r2 where 2: "r1 = 0x40 # r2"
      "test [Many1 notSpaceOrAt, One (\<lambda>c. c = 0x2E), Many1 notSpaceOrAt] r2"
    unfolding test_One by blast
  then obtain b r3 where 3: "r2 = b @ r3" "b \<noteq> []" "\<forall>x\<in>set b. notSpaceOrAt x"
      "test [One (\<lambda>c. c = 0x2E), Many1 notSpaceOrAt] r3"
    unfolding test_Many1 [of notSpaceOrAt] by blast
  then obtain r4 where 4: "r3 = 0x2E # r4" "test [Many1 notSpaceOrAt] r4"
    unfolding test_One by blast
  then obtain d r5 where 5: "r4 = d @ r5" "d \<noteq> []" "\<forall>x\<in>set d. notSpaceOrAt x" "test [] r5"
    unfolding test_Many1 [of notSpaceOrAt] by blast
  then have 6: "r5 = []" by simp
  have "s = a @ [0x40] @ b @ [0x2E] @ d" using 1 2 3 4 5 6 by simp
  moreover have "\<forall>x\<in>set (a @ b @ d). \<not> isWhiteSpace x \<and> x \<noteq> 0x40"
    using 1 3 5 by (auto simp: notSpaceOrAt_def)
  ultimately show ?r using 1 3 5 by blast
next
  assume ?r
  then obtain a b d where s: "s = a @ [0x40] @ b @ [0x2E] @ d"
      and ne: "a \<noteq> []" "b \<noteq> []" "d \<noteq> []"
      and cl: "\<forall>x\<in>set (a @ b @ d). \<not> isWhiteSpace x \<and> x \<noteq> 0x40" by blast
  have pa: "\<forall>x\<in>set a. notSpaceOrAt x" and pb: "\<forall>x\<in>set b. notSpaceOrAt x"
    and pd: "\<forall>x\<in>set d. notSpaceOrAt x"
    using cl by (auto simp: notSpaceOrAt_def)
  have 5: "test [Many1 notSpaceOrAt] d"
    unfolding test_Many1 [of notSpaceOrAt] using ne pd by (intro exI [of _ d] exI [of _ "[]"]) simp
  have 4: "test [One (\<lambda>c. c = 0x2E), Many1 notSpaceOrAt] (0x2E # d)"
    using 5 by simp
  have 3: "test [Many1 notSpaceOrAt, One (\<lambda>c. c = 0x2E), Many1 notSpaceOrAt] (b @ 0x2E # d)"
    unfolding test_Many1 [of notSpaceOrAt] using ne pb 4 by blast
  have 2: "test [One (\<lambda>c. c = 0x40), Many1 notSpaceOrAt, One (\<lambda>c. c = 0x2E), Many1 notSpaceOrAt]
             (0x40 # b @ 0x2E # d)"
    using 3 by simp
  have "test emailRegex (a @ 0x40 # b @ 0x2E # d)"
    unfolding emailRegex_def test_Many1 [of notSpaceOrAt] using ne pa 2 by blast
  then show ?l using s by simp
qed

lemma whitespace_no_email:
  assumes "s \<noteq> []" "\<forall>c\<in>set s. isWhiteSpace c"
  shows "\<not> test emailRegex s"
  using assms by (cases s) (auto simp: emailRegex_def notSpaceOrAt_def)

section \<open>Facts about validation\<close>

lemma validate_ok_iff:
  "validateFormData fd = [] \<longleftrightarrow>
     \<not> blank (field_of fd ''name'') \<and> \<not> blank (field_of fd ''email'') \<and> \<not> malformed (field_of fd ''email'')"
  by (simp add: validateFormData_def Let_def)

lemma validate_shape:
  "validateFormData fd = [] \<longleftrightarrow>
     (\<exists>n local domain tld.
        field_of fd ''name'' = Some n \<and> (\<exists>c\<in>set n. \<not> isWhiteSpace c)
      \<and> field_of fd ''email'' = Some (local @ [0x40] @ domain @ [0x2E] @ tld)
      \<and> local \<noteq> [] \<and> domain \<noteq> [] \<and> tld \<noteq> []
      \<and> (\<forall>x\<in>set (local @ domain @ tld). \<not> isWhiteSpace x \<and> x \<noteq> 0x40))"
  (is "?l \<longleftrightarrow> ?r")
proof
  assume ?l
  then have n: "\<not> blank (field_of fd ''name'')" and e: "\<not> blank (field_of fd ''email'')"
    and m: "\<not> malformed (field_of fd ''email'')"
    by (simp_all add: validate_ok_iff)
  from n obtain nm where nm: "field_of fd ''name'' = Some nm" "\<exists>c\<in>set nm. \<not> isWhiteSpace c"
    by (auto simp: blank_iff)
  from e obtain em where em: "field_of fd ''email'' = Some em" "\<exists>c\<in>set em. \<not> isWhiteSpace c"
    by (auto simp: blank_iff)
  then have "em \<noteq> []" by auto
  with m em have "test emailRegex em" by simp
  then show ?r using nm em unfolding emailRegex_shape by blast
next
  assume ?r
  then obtain n a b d where n: "field_of fd ''name'' = Some n" "\<exists>c\<in>set n. \<not> isWhiteSpace c"
    and e: "field_of fd ''email'' = Some (a @ [0x40] @ b @ [0x2E] @ d)"
    and ne: "a \<noteq> []" "b \<noteq> []" "d \<noteq> []"
    and cl: "\<forall>x\<in>set (a @ b @ d). \<not> isWhiteSpace x \<and> x \<noteq> 0x40" by blast
  have t: "test emailRegex (a @ [0x40] @ b @ [0x2E] @ d)"
    unfolding emailRegex_shape using ne cl by blast
  have 1: "\<not> blank (field_of fd ''name'')" using n by (auto simp: blank_iff)
  obtain x where "x \<in> set a" using ne by (cases a) auto
  with cl have "\<exists>c\<in>set (a @ [0x40] @ b @ [0x2E] @ d). \<not> isWhiteSpace c" by auto
  then have 2: "\<not> blank (field_of fd ''email'')" unfolding e blank_iff by blast
  have 3: "\<not> malformed (field_of fd ''email'')" unfolding e using t by simp
  show ?l using 1 2 3 by (simp add: validate_ok_iff)
qed

lemma handler_invalid:
  assumes "http_method req = lit ''POST''" "validateFormData (parseFormData w (body req)) \<noteq> []"
  shows "handler w req c =
    (respond 400 (Failure (lit ''Validation failed: '' @ join (lit '', '') (validateFormData (parseFormData w (body req))))
                          (now_respond w)), c, [])"
  using assms method_lits by (simp add: handler_def Let_def)


section \<open>Facts about numbers\<close>

lemma to_double_exact: "\<bar>x\<bar> < 2 ^ 53 \<Longrightarrow> to_double x = Fin x"
proof -
  assume b: "\<bar>x\<bar> < 2 ^ 53"
  have "(2::int) ^ 53 \<le> 2 ^ 1024" by (rule power_increasing) simp_all
  with b have "\<not> (2 ^ 1024 \<le> \<bar>x\<bar>)" by linarith
  with b show ?thesis by (simp add: to_double_def nearest_def)
qed

lemma expiry_exact:
  assumes "0 \<le> n" and "0 \<le> T" and "n + T * 1000 < 2 ^ 53"
  shows "Fin n + (Fin T * Fin 1000) - Fin 60000 = Fin (n + T * 1000 - 60000)"
proof -
  have 1: "\<bar>T * 1000\<bar> < 2 ^ 53" using assms by simp
  have 2: "\<bar>n + T * 1000\<bar> < 2 ^ 53" using assms by simp
  have 3: "\<bar>n + T * 1000 - 60000\<bar> < 2 ^ 53" using assms by simp
  have "Fin T * Fin 1000 = Fin (T * 1000)"
    using 1 by (simp add: times_jsnum_def to_double_exact)
  moreover have "Fin n + Fin (T * 1000) = Fin (n + T * 1000)"
    using 2 by (simp add: plus_jsnum_def to_double_exact)
  moreover have "Fin (n + T * 1000) - Fin 60000 = Fin (n + T * 1000 - 60000)"
    using 3 by (simp add: minus_jsnum_def to_double_exact)
  ultimately show ?thesis by simp
qed


lemma less_Fin [simp]: "Fin a < Fin b \<longleftrightarrow> a < b"
  by (simp add: less_jsnum_def)

lemma not_less_NaN [simp]: "\<not> x < NaN"
  by (cases x) (simp_all add: less_jsnum_def)

lemma bits_bounds: "2 ^ k \<le> n \<Longrightarrow> n < 2 ^ Suc k \<Longrightarrow> bits n = Suc k"
proof (induction k arbitrary: n)
  case 0
  then have "n = 1" by simp
  then show ?case by (simp add: bits.simps [of "Suc 0"] bits.simps [of 0])
next
  case (Suc k)
  then have n0: "n \<noteq> 0" by auto
  from Suc.prems have "2 ^ k \<le> n div 2" and "n div 2 < 2 ^ Suc k" by auto
  then have "bits (n div 2) = Suc k" by (rule Suc.IH)
  with n0 show ?case by (subst bits.simps) simp
qed

lemma bits_of_sum: "bits 9007199254743001 = 54"
  using bits_bounds [of 53 9007199254743001] by simp

lemma bits_of_product: "bits 9007199254741000 = 54"
  using bits_bounds [of 53 9007199254741000] by simp

lemma below_overflow: "(x::int) < 2 ^ 54 \<Longrightarrow> x < 2 ^ 1024"
proof -
  assume "x < 2 ^ 54"
  also have "(2::int) ^ 54 \<le> 2 ^ 1024" by (rule power_increasing) simp_all
  finally show ?thesis .
qed

lemma nearest_product: "nearest 9007199254741000 = 9007199254741000"
  by (simp add: nearest_def bits_of_product Let_def)

lemma nearest_sum: "nearest 9007199254743001 = 9007199254743000"
  by (simp add: nearest_def bits_of_sum Let_def)

text \<open>
  Beyond \<open>2^53\<close> the sum is rounded: a lifetime of 9007199254741 seconds granted at the
  instant 2001 expires at 9007199254683000, one less than the exact sum.
\<close>

lemma expiry_rounded:
  "Fin 2001 + (Fin 9007199254741 * Fin 1000) - Fin 60000 = Fin 9007199254683000"
proof -
  have 1: "Fin 9007199254741 * Fin 1000 = Fin 9007199254741000"
    using below_overflow [of 9007199254741000] by (simp add: times_jsnum_def to_double_def nearest_product)
  have 2: "Fin 2001 + Fin 9007199254741000 = Fin 9007199254743000"
    using below_overflow [of 9007199254743000] by (simp add: plus_jsnum_def to_double_def nearest_sum)
  have 3: "Fin 9007199254743000 - Fin 60000 = Fin 9007199254683000"
    by (simp add: minus_jsnum_def to_double_exact)
  show ?thesis unfolding 1 2 3 ..
qed

section \<open>Facts about the token cache, the provider and the submitter\<close>

lemma getAccessToken_hit:
  "truthy (token c) \<Longrightarrow> now_check w < expires c \<Longrightarrow> getAccessToken w c = (Inr (token c), c, [])"
  by (simp add: getAccessToken_def)

lemma getAccessToken_refresh:
  "\<not> (truthy (token c) \<and> now_check w < expires c) \<Longrightarrow> auth_reply w = Response True (Some d) \<Longrightarrow>
   getAccessToken w c =
     (Inr (access_token d), store_token (access_token d) (expires_in d) (now_store w) c,
      [TokenExchange])"
  by (simp add: getAccessToken_def)

lemma getAccessToken_miss_trace:
  "\<not> (truthy (token c) \<and> now_check w < expires c) \<Longrightarrow>
   snd (snd (getAccessToken w c)) = [TokenExchange]"
  by (simp add: getAccessToken_def split: outcome.splits option.splits)

lemma getAccessToken_null_body:
  "\<not> (truthy (token c) \<and> now_check w < expires c) \<Longrightarrow> auth_reply w = Response ok None \<Longrightarrow>
   getAccessToken w c = (Inl (Error (lit ''Failed to authenticate with Zoho'')), c, [TokenExchange])"
  by (simp add: getAccessToken_def)

lemma getAccessToken_cache_changed:
  "fst (snd (getAccessToken w c)) \<noteq> c \<Longrightarrow>
   \<not> (truthy (token c) \<and> now_check w < expires c) \<and> (\<exists>d. auth_reply w = Response True d)"
  by (auto simp: getAccessToken_def split: outcome.splits option.splits if_splits)

lemma cached_token_store:
  "tok \<noteq> [] \<Longrightarrow>
   cached_token (store_token (Val tok) ttl now c) t =
     (if t < now + (to_number ttl * Fin 1000) - Fin 60000 then Some tok else None)"
  by (simp add: cached_token_def store_token_def)

lemma cached_token_Some_iff:
  "cached_token c now = Some t \<longleftrightarrow> token c = Val t \<and> t \<noteq> [] \<and> now < expires c"
  by (cases "token c") (auto simp: cached_token_def)

lemma createZohoLead_cache:
  "fst (snd (createZohoLead w l c)) = fst (snd (getAccessToken w c))"
  by (cases "getAccessToken w c" rule: prod_cases3)
     (auto simp: createZohoLead_def Let_def split: sum.splits outcome.splits)

lemma createZohoLead_ok:
  assumes "fst (getAccessToken w c) = Inr tok" "crm_reply w = Response True z"
  shows "fst (createZohoLead w l c) = Inr z"
  using assms
  by (cases "getAccessToken w c" rule: prod_cases3) (simp add: createZohoLead_def Let_def)


text \<open>A \<^verbatim>\<open>null\<close> body of a successful CRM response is answered with the TypeError of
  line 225.\<close>

lemma handler_null_body:
  assumes "http_method req = lit ''POST''" "validateFormData (parseFormData w (body req)) = []"
      and "fst (getAccessToken w c) = Inr tok" and "crm_reply w = Response True None"
  shows "fst (handler w req c) = caught w (cannot_read ''null'' ''data'')"
proof -
  let ?l = "mapFormDataToZohoLead (parseFormData w (body req))
              (Some (or_else (field_of (parseFormData w (body req)) ''form_type'') (lit ''general'')))"
  have "fst (createZohoLead w ?l c) = Inr None"
    using assms(3,4) by (rule createZohoLead_ok)
  then show ?thesis
    using assms(1,2) method_lits
    by (cases "createZohoLead w ?l c" rule: prod_cases3) (simp add: handler_def Let_def)
qed



lemma granted_expiry: "Fin 2000 + (to_number (Val (Fin 3600)) * Fin 1000) - Fin 60000 = Fin 3542000"
  using expiry_exact [of 2000 3600] by simp


section \<open>The claims\<close>

subsection \<open>The token cache\<close>

text \<open>
  Claim C1, as amended. Let \<open>getAccessToken\<close> cache a token that is not the empty string,
  with a lifetime of \<open>T\<close> seconds, at the instant \<open>n\<close> read on line 50, where \<open>n\<close> and
  \<open>T\<close> are not negative and \<open>n + T * 1000\<close> is below \<open>2^53\<close>, the range in which the
  arithmetic of JavaScript numbers is exact. Then the expiry it stores is
  \<open>n + T * 1000 - 60000\<close> milliseconds, one minute short of the lifetime. A later reading of
  the cache at the instant \<open>t\<close> gives the token exactly when \<open>t\<close> is before that expiry,
  and otherwise gives nothing, which is a value and not an error: the reading
  \<open>T - 60 - 1\<close> seconds after the write gives the token, the reading \<open>T - 60 + 1\<close> seconds
  after it gives nothing. Accordingly a later call of \<open>getAccessToken\<close> before the expiry
  returns the token and sends nothing, and a call at or after it makes one exchange.
\<close>

theorem token_cache_expiry:
  assumes "\<not> (truthy (token c) \<and> now_check w < expires c)"
      and "auth_reply w = Response True (Some \<lparr>access_token = Val tok, expires_in = Val (Fin T)\<rparr>)"
      and "tok \<noteq> []"
      and "now_store w = Fin n" and "0 \<le> n" and "0 \<le> T" and "n + T * 1000 < 2 ^ 53"
  shows "expires (fst (snd (getAccessToken w c))) = Fin (n + T * 1000 - 60000)
       \<and> token (fst (snd (getAccessToken w c))) = Val tok
       \<and> (\<forall>t. cached_token (fst (snd (getAccessToken w c))) t =
               (if t < Fin (n + T * 1000 - 60000) then Some tok else None))
       \<and> cached_token (fst (snd (getAccessToken w c))) (Fin (n + (T - 60 - 1) * 1000)) = Some tok
       \<and> cached_token (fst (snd (getAccessToken w c))) (Fin (n + (T - 60 + 1) * 1000)) = None
       \<and> (\<forall>w'. now_check w' < Fin (n + T * 1000 - 60000) \<longrightarrow>
             getAccessToken w' (fst (snd (getAccessToken w c))) =
               (Inr (Val tok), fst (snd (getAccessToken w c)), []))
       \<and> (\<forall>w'. \<not> now_check w' < Fin (n + T * 1000 - 60000) \<longrightarrow>
             snd (snd (getAccessToken w' (fst (snd (getAccessToken w c))))) = [TokenExchange])"
proof -
  let ?e = "Fin (n + T * 1000 - 60000)"
  let ?c' = "store_token (Val tok) (Val (Fin T)) (Fin n) c"
  have c': "fst (snd (getAccessToken w c)) = ?c'"
    using assms(1,2,4) by (simp add: getAccessToken_refresh)
  have e: "Fin n + (to_number (Val (Fin T)) * Fin 1000) - Fin 60000 = ?e"
    using expiry_exact [OF assms(5,6,7)] by simp
  have 1: "expires ?c' = ?e" and 2: "token ?c' = Val tok"
    using e by (simp_all add: store_token_def)
  have 3: "cached_token ?c' t = (if t < ?e then Some tok else None)" for t
    using cached_token_store [OF assms(3), of "Val (Fin T)" "Fin n" c t] e by simp
  have 4: "getAccessToken w' ?c' = (Inr (Val tok), ?c', [])" if "now_check w' < ?e" for w'
    using that assms(3) 1 2 by (simp add: getAccessToken_hit)
  have 5: "snd (snd (getAccessToken w' ?c')) = [TokenExchange]" if "\<not> now_check w' < ?e" for w'
    using that 1 by (simp add: getAccessToken_miss_trace)
  show ?thesis
    unfolding c' using 1 2 3 4 5 by simp
qed

theorem token_cache_expiry_witness:
  "expires (fst (snd (getAccessToken (mock_world Rejected) accessTokenCache))) = Fin 3542000
 \<and> cached_token (fst (snd (getAccessToken (mock_world Rejected) accessTokenCache))) (Fin 3541000)
     = Some (lit ''tok'')
 \<and> cached_token (fst (snd (getAccessToken (mock_world Rejected) accessTokenCache))) (Fin 3543000)
     = None"
proof -
  let ?w = "mock_world Rejected"
  have a: "\<not> (truthy (token accessTokenCache) \<and> now_check ?w < expires accessTokenCache)"
    by (simp add: accessTokenCache_def)
  have b: "auth_reply ?w =
      Response True (Some \<lparr>access_token = Val (lit ''tok''), expires_in = Val (Fin 3600)\<rparr>)"
    by (simp add: mock_world_def granting_world_def)
  have c: "lit ''tok'' \<noteq> []" by (simp add: lit_def)
  have n: "now_store ?w = Fin 2000" by (simp add: mock_world_def granting_world_def)
  have p: "(0::int) \<le> 2000" and q: "(0::int) \<le> 3600" and r: "(2000::int) + 3600 * 1000 < 2 ^ 53"
    by simp_all
  show ?thesis using token_cache_expiry [OF a b c n p q r] by simp
qed

text \<open>
  The claim as it was written holds for every token. An empty token is cached like any
  other, here for an hour at the instant 2000, and is never read back: the reading at the
  instant 3000, long before the expiry, gives nothing, and a call then makes a new exchange.
\<close>

theorem empty_token_never_read_back_counterexample:
  "token (fst (snd (getAccessToken (granting_world [] Rejected) accessTokenCache))) = Val []
 \<and> expires (fst (snd (getAccessToken (granting_world [] Rejected) accessTokenCache))) = Fin 3542000
 \<and> Fin 3000 < expires (fst (snd (getAccessToken (granting_world [] Rejected) accessTokenCache)))
 \<and> cached_token (fst (snd (getAccessToken (granting_world [] Rejected) accessTokenCache))) (Fin 3000)
     = None
 \<and> snd (snd (getAccessToken ((granting_world [] Rejected)\<lparr>now_check := Fin 3000\<rparr>)
                (fst (snd (getAccessToken (granting_world [] Rejected) accessTokenCache)))))
     = [TokenExchange]"
proof -
  let ?w = "granting_world [] Rejected"
  have a: "\<not> (truthy (token accessTokenCache) \<and> now_check ?w < expires accessTokenCache)"
    by (simp add: accessTokenCache_def)
  have b: "auth_reply ?w = Response True (Some \<lparr>access_token = Val [], expires_in = Val (Fin 3600)\<rparr>)"
    by (simp add: granting_world_def)
  have n: "now_store ?w = Fin 2000" by (simp add: granting_world_def)
  have c': "fst (snd (getAccessToken ?w accessTokenCache)) =
      accessTokenCache\<lparr>token := Val [], expires := Fin 3542000\<rparr>"
    using getAccessToken_refresh [OF a b] granted_expiry by (simp add: store_token_def n)
  have m: "\<not> (truthy (token (accessTokenCache\<lparr>token := Val [], expires := Fin 3542000\<rparr>))
      \<and> now_check (?w\<lparr>now_check := Fin 3000\<rparr>)
          < expires (accessTokenCache\<lparr>token := Val [], expires := Fin 3542000\<rparr>))"
    by simp
  show ?thesis
    unfolding c' using getAccessToken_miss_trace [OF m] by (simp add: cached_token_def)
qed



text \<open>
  Claim C4. When the cache has no valid token, so that the exchange is made, and the
  exchange is rejected in transport, or its body is not JSON, or the response is not a
  success, \<open>getAccessToken\<close> throws the authentication error of line 55, whose message
  is not that of the CRM error of line 86; it returns no token at all and leaves the cache
  as it was.
\<close>

theorem exchange_failure_is_authentication_error:
  assumes "\<not> (truthy (token c) \<and> now_check w < expires c)"
      and "auth_reply w = Rejected \<or> auth_reply w = NotJSON \<or> auth_reply w = Response False d"
  shows "getAccessToken w c =
           (Inl (Error (lit ''Failed to authenticate with Zoho'')), c, [TokenExchange])
       \<and> Error (lit ''Failed to authenticate with Zoho'') \<noteq> Error (lit ''Failed to create lead in Zoho CRM'')"
proof -
  have "getAccessToken w c =
      (Inl (Error (lit ''Failed to authenticate with Zoho'')), c, [TokenExchange])"
    using assms by (cases d) (auto simp: getAccessToken_def)
  moreover have "lit ''Failed to authenticate with Zoho'' \<noteq> lit ''Failed to create lead in Zoho CRM''"
    by (simp add: lit_def)
  ultimately show ?thesis by simp
qed

theorem exchange_failure_is_authentication_error_witness:
  "getAccessToken
     ((mock_world Rejected)
        \<lparr>auth_reply := Response False (Some \<lparr>access_token = Undefined, expires_in = Undefined\<rparr>)\<rparr>)
     accessTokenCache =
     (Inl (Error (lit ''Failed to authenticate with Zoho'')), accessTokenCache, [TokenExchange])"
proof -
  let ?d = "Some \<lparr>access_token = Undefined, expires_in = Undefined\<rparr>"
  let ?w = "(mock_world Rejected)\<lparr>auth_reply := Response False ?d\<rparr>"
  have a: "\<not> (truthy (token accessTokenCache) \<and> now_check ?w < expires accessTokenCache)"
    by (simp add: accessTokenCache_def)
  have b: "auth_reply ?w = Rejected \<or> auth_reply ?w = NotJSON \<or> auth_reply ?w = Response False ?d"
    by simp
  show ?thesis using exchange_failure_is_authentication_error [OF a b] by simp
qed

text \<open>
  Claim C5. The cache that \<open>createZohoLead\<close> leaves is the one that its call of
  \<open>getAccessToken\<close> leaves: it is the same for every reply of the CRM, it differs from
  the cache before the call only when the cache had no valid token and the token exchange
  succeeded, and a rejection by the CRM (a 401 among them) of a request made with a valid
  cached token leaves that token and its expiry in place.
\<close>

theorem submit_leaves_cache_to_provider:
  "fst (snd (createZohoLead w l c)) = fst (snd (getAccessToken w c))
 \<and> fst (snd (createZohoLead (w\<lparr>crm_reply := r\<rparr>) l c)) = fst (snd (createZohoLead w l c))
 \<and> (fst (snd (createZohoLead w l c)) \<noteq> c \<longrightarrow>
      \<not> (truthy (token c) \<and> now_check w < expires c) \<and> (\<exists>d. auth_reply w = Response True d))
 \<and> (truthy (token c) \<and> now_check w < expires c \<and> crm_reply w = Response False z \<longrightarrow>
      createZohoLead w l c =
        (Inl (Error (lit ''Failed to create lead in Zoho CRM'')), c,
         [LeadPost (authorization (token c)) l]))"
proof (intro conjI impI)
  show "fst (snd (createZohoLead w l c)) = fst (snd (getAccessToken w c))"
    by (rule createZohoLead_cache)
  have "getAccessToken (w\<lparr>crm_reply := r\<rparr>) c = getAccessToken w c"
    by (simp add: getAccessToken_def split: option.splits outcome.splits)
  then show "fst (snd (createZohoLead (w\<lparr>crm_reply := r\<rparr>) l c)) = fst (snd (createZohoLead w l c))"
    by (simp add: createZohoLead_cache)
next
  assume "fst (snd (createZohoLead w l c)) \<noteq> c"
  then have "fst (snd (getAccessToken w c)) \<noteq> c" by (simp add: createZohoLead_cache)
  then have "\<not> (truthy (token c) \<and> now_check w < expires c) \<and> (\<exists>d. auth_reply w = Response True d)"
    by (rule getAccessToken_cache_changed)
  then show "\<not> (truthy (token c) \<and> now_check w < expires c)"
    and "\<exists>d. auth_reply w = Response True d"
    by simp_all
next
  assume h: "truthy (token c) \<and> now_check w < expires c \<and> crm_reply w = Response False z"
  then have "getAccessToken w c = (Inr (token c), c, [])" by (simp add: getAccessToken_hit)
  then show "createZohoLead w l c =
        (Inl (Error (lit ''Failed to create lead in Zoho CRM'')), c,
         [LeadPost (authorization (token c)) l])"
    using h by (simp add: createZohoLead_def)
qed

theorem submit_leaves_cache_to_provider_witness:
  "createZohoLead (mock_world (Response False (Some one_entry))) (mapFormDataToZohoLead Map.empty None)
     \<lparr>token = Val (lit ''old''), expires = Fin 5000\<rparr> =
     (Inl (Error (lit ''Failed to create lead in Zoho CRM'')),
      \<lparr>token = Val (lit ''old''), expires = Fin 5000\<rparr>,
      [LeadPost (authorization (Val (lit ''old''))) (mapFormDataToZohoLead Map.empty None)])
 \<and> (fst (snd (createZohoLead (mock_world (Response False (Some one_entry)))
               (mapFormDataToZohoLead Map.empty None) accessTokenCache)) \<noteq> accessTokenCache
    \<and> (\<exists>d. auth_reply (mock_world (Response False (Some one_entry))) = Response True d))"
proof -
  let ?w = "mock_world (Response False (Some one_entry))"
  let ?l = "mapFormDataToZohoLead Map.empty None"
  let ?c = "\<lparr>token = Val (lit ''old''), expires = Fin 5000\<rparr>"
  have a: "truthy (token ?c) \<and> now_check ?w < expires ?c
      \<and> crm_reply ?w = Response False (Some one_entry)"
    by (simp add: mock_world_def granting_world_def lit_def)
  have b: "fst (snd (getAccessToken ?w accessTokenCache)) \<noteq> accessTokenCache"
    by (simp add: getAccessToken_def store_token_def accessTokenCache_def
        mock_world_def granting_world_def)
  note t1 = submit_leaves_cache_to_provider
              [where w = ?w and l = ?l and c = ?c and z = "Some one_entry"]
  note t2 = submit_leaves_cache_to_provider [where w = ?w and l = ?l and c = accessTokenCache]
  from t1 a have 1: "createZohoLead ?w ?l ?c =
      (Inl (Error (lit ''Failed to create lead in Zoho CRM'')), ?c,
       [LeadPost (authorization (token ?c)) ?l])"
    by blast
  from t2 b have 2: "fst (snd (createZohoLead ?w ?l accessTokenCache)) \<noteq> accessTokenCache"
    by simp
  with t2 have 3: "\<exists>d. auth_reply ?w = Response True d" by blast
  from 1 2 3 show ?thesis by simp
qed

subsection \<open>The acknowledgement of the CRM\<close>




subsection \<open>The lead mapping\<close>

text \<open>
  Claim C6, as amended. \<open>mapFormDataToZohoLead\<close> cuts the name at its first space
  character (U+0020, no other white space): \<open>First_Name\<close> is what stands before that
  space, \<open>Last_Name\<close> is everything after it, and \<^verbatim>\<open>"User"\<close> when there is no space or
  nothing after it. When the name is missing or empty, \<open>First_Name\<close> is \<^verbatim>\<open>"Unknown"\<close>
  and \<open>Last_Name\<close> is \<^verbatim>\<open>"User"\<close>.
\<close>

theorem name_split_at_first_space:
  "(\<not> truthy_field (field_of fd ''name'') \<longrightarrow>
      First_Name (mapFormDataToZohoLead fd ft) = Some (lit ''Unknown'')
    \<and> Last_Name (mapFormDataToZohoLead fd ft) = lit ''User'')
 \<and> (field_of fd ''name'' = Some s \<and> s \<noteq> [] \<longrightarrow>
      First_Name (mapFormDataToZohoLead fd ft) = Some (takeWhile (\<lambda>c. c \<noteq> 0x20) s)
    \<and> Last_Name (mapFormDataToZohoLead fd ft) =
        (if drop 1 (dropWhile (\<lambda>c. c \<noteq> 0x20) s) \<noteq> [] then drop 1 (dropWhile (\<lambda>c. c \<noteq> 0x20) s)
         else lit ''User''))"
proof -
  have sp: "lit '' '' = [0x20]" by (simp add: lit_def)
  have gen: "First_Name (mapFormDataToZohoLead fd ft) =
        Some (takeWhile (\<lambda>c. c \<noteq> 0x20) (or_else (field_of fd ''name'') (lit ''Unknown User'')))
      \<and> Last_Name (mapFormDataToZohoLead fd ft) =
        or_else (Some (drop 1 (dropWhile (\<lambda>c. c \<noteq> 0x20)
                                 (or_else (field_of fd ''name'') (lit ''Unknown User'')))))
          (lit ''User'')"
    by (simp add: mapFormDataToZohoLead_def Let_def first_piece join_rest sp del: or_else.simps)
  have absent: "First_Name (mapFormDataToZohoLead fd ft) = Some (lit ''Unknown'')
      \<and> Last_Name (mapFormDataToZohoLead fd ft) = lit ''User''"
    if "\<not> truthy_field (field_of fd ''name'')"
  proof -
    from that have "or_else (field_of fd ''name'') (lit ''Unknown User'') = lit ''Unknown User''"
      by (cases "field_of fd ''name''") auto
    with gen show ?thesis by (simp add: lit_def)
  qed
  have present: "First_Name (mapFormDataToZohoLead fd ft) = Some (takeWhile (\<lambda>c. c \<noteq> 0x20) s)
      \<and> Last_Name (mapFormDataToZohoLead fd ft) =
        (if drop 1 (dropWhile (\<lambda>c. c \<noteq> 0x20) s) \<noteq> [] then drop 1 (dropWhile (\<lambda>c. c \<noteq> 0x20) s)
         else lit ''User'')"
    if "field_of fd ''name'' = Some s \<and> s \<noteq> []"
  proof -
    from that have "or_else (field_of fd ''name'') (lit ''Unknown User'') = s" by simp
    with gen show ?thesis by simp
  qed
  from absent present show ?thesis by blast
qed

theorem name_split_at_first_space_witness:
  "First_Name (mapFormDataToZohoLead Map.empty None) = Some (lit ''Unknown'')
 \<and> Last_Name (mapFormDataToZohoLead Map.empty None) = lit ''User''
 \<and> First_Name (mapFormDataToZohoLead [lit ''name'' \<mapsto> lit ''Ann Mary Lee''] None) = Some (lit ''Ann'')
 \<and> Last_Name (mapFormDataToZohoLead [lit ''name'' \<mapsto> lit ''Ann Mary Lee''] None) = lit ''Mary Lee''"
  using name_split_at_first_space
          [where fd = Map.empty and s = "lit ''Ann Mary Lee''" and ft = None]
        name_split_at_first_space
          [where fd = "[lit ''name'' \<mapsto> lit ''Ann Mary Lee'']" and s = "lit ''Ann Mary Lee''"
             and ft = None]
  by (simp add: field_of_def lit_def)

text \<open>
  The claim as it was written takes the first white-space-delimited token. For the name
  \<^verbatim>\<open>Ann<TAB>Lee\<close> that token is \<^verbatim>\<open>Ann\<close>, and the first name of the lead is the whole
  name.
\<close>

theorem first_name_of_tabbed_name_counterexample:
  "First_Name (mapFormDataToZohoLead [lit ''name'' \<mapsto> tabbed_name] None) = Some tabbed_name
   \<and> spec_first_token tabbed_name = lit ''Ann''
   \<and> First_Name (mapFormDataToZohoLead [lit ''name'' \<mapsto> tabbed_name] None)
       \<noteq> Some (spec_first_token tabbed_name)"
  by (simp add: mapFormDataToZohoLead_def Let_def field_of_def tabbed_name_def lit_def
      spec_first_token_def isWhiteSpace_def)

text \<open>
  Claim C7. For every form data, the form type \<^verbatim>\<open>"contact"\<close> gives the lead source
  \<^verbatim>\<open>"Website - Contact Form"\<close> and the status \<^verbatim>\<open>"Not Contacted"\<close>, the form type
  \<^verbatim>\<open>"newsletter"\<close> gives \<^verbatim>\<open>"Website - Newsletter"\<close> and \<^verbatim>\<open>"Qualified"\<close>, and any other
  form type, or none, gives \<^verbatim>\<open>"Website"\<close> and \<^verbatim>\<open>"Not Contacted"\<close>.
\<close>

theorem form_type_table:
  "Lead_Source (mapFormDataToZohoLead fd (Some (lit ''contact''))) = lit ''Website - Contact Form''
 \<and> Lead_Status (mapFormDataToZohoLead fd (Some (lit ''contact''))) = lit ''Not Contacted''
 \<and> Lead_Source (mapFormDataToZohoLead fd (Some (lit ''newsletter''))) = lit ''Website - Newsletter''
 \<and> Lead_Status (mapFormDataToZohoLead fd (Some (lit ''newsletter''))) = lit ''Qualified''
 \<and> (ft \<noteq> Some (lit ''contact'') \<and> ft \<noteq> Some (lit ''newsletter'') \<longrightarrow>
       Lead_Source (mapFormDataToZohoLead fd ft) = lit ''Website''
     \<and> Lead_Status (mapFormDataToZohoLead fd ft) = lit ''Not Contacted'')"
proof -
  have "lit ''contact'' \<noteq> lit ''newsletter''" by (simp add: lit_def)
  then show ?thesis by (simp add: mapFormDataToZohoLead_def Let_def)
qed

theorem form_type_table_witness:
  "Lead_Source (mapFormDataToZohoLead [lit ''name'' \<mapsto> lit ''Ann Lee'', lit ''email'' \<mapsto> lit ''a@b.com'']
                  (Some (lit ''general''))) = lit ''Website''
 \<and> Lead_Status (mapFormDataToZohoLead [lit ''name'' \<mapsto> lit ''Ann Lee'', lit ''email'' \<mapsto> lit ''a@b.com'']
                  (Some (lit ''general''))) = lit ''Not Contacted''
 \<and> Lead_Source (mapFormDataToZohoLead [lit ''name'' \<mapsto> lit ''Ann Lee'', lit ''email'' \<mapsto> lit ''a@b.com'']
                  None) = lit ''Website''"
proof -
  let ?fd = "[lit ''name'' \<mapsto> lit ''Ann Lee'', lit ''email'' \<mapsto> lit ''a@b.com'']"
  have a: "Some (lit ''general'') \<noteq> Some (lit ''contact'')
      \<and> Some (lit ''general'') \<noteq> Some (lit ''newsletter'')"
    by (simp add: lit_def)
  have b: "None \<noteq> Some (lit ''contact'') \<and> None \<noteq> Some (lit ''newsletter'')"
    by simp
  from form_type_table [where fd = ?fd and ft = "Some (lit ''general'')"] a
  have 1: "Lead_Source (mapFormDataToZohoLead ?fd (Some (lit ''general''))) = lit ''Website''
      \<and> Lead_Status (mapFormDataToZohoLead ?fd (Some (lit ''general''))) = lit ''Not Contacted''"
    by blast
  from form_type_table [where fd = ?fd and ft = None] b
  have 2: "Lead_Source (mapFormDataToZohoLead ?fd None) = lit ''Website''"
    by blast
  from 1 2 show ?thesis by simp
qed

text \<open>
  Claim C9. The lead is a function of the form type and of the five fields
  \<open>name\<close>, \<open>email\<close>, \<open>phone\<close>, \<open>company\<close> and \<open>message\<close> of the form data, and of
  nothing else (no clock, no cache, no other field): two mappings of inputs that agree
  there, and so two mappings of the same input, give the same lead, field by field.
\<close>

theorem lead_mapping_deterministic:
  assumes "\<forall>k\<in>set [''name'', ''email'', ''phone'', ''company'', ''message''].
             field_of fd' k = field_of fd k"
      and "ft' = ft"
  shows "mapFormDataToZohoLead fd' ft' = mapFormDataToZohoLead fd ft"
  using assms by (simp add: mapFormDataToZohoLead_def)

theorem lead_mapping_deterministic_witness:
  "mapFormDataToZohoLead
     [lit ''name'' \<mapsto> lit ''Ann Lee'', lit ''email'' \<mapsto> lit ''a@b.com'', lit ''form_type'' \<mapsto> lit ''contact'']
     (Some (lit ''newsletter'')) =
   mapFormDataToZohoLead [lit ''name'' \<mapsto> lit ''Ann Lee'', lit ''email'' \<mapsto> lit ''a@b.com'']
     (Some (lit ''newsletter''))"
proof -
  let ?fd = "[lit ''name'' \<mapsto> lit ''Ann Lee'', lit ''email'' \<mapsto> lit ''a@b.com'']"
  let ?fd' = "[lit ''name'' \<mapsto> lit ''Ann Lee'', lit ''email'' \<mapsto> lit ''a@b.com'',
               lit ''form_type'' \<mapsto> lit ''contact'']"
  have a: "\<forall>k\<in>set [''name'', ''email'', ''phone'', ''company'', ''message''].
             field_of ?fd' k = field_of ?fd k"
    by (simp add: field_of_def lit_def)
  show ?thesis
    by (rule lead_mapping_deterministic [OF a refl])
qed

subsection \<open>Validation\<close>

text \<open>
  Claim C8. \<open>validateFormData\<close> reports nothing exactly when the name has a code unit
  that is not white space and the email is of the shape \<open>local@domain.tld\<close>, three
  non-empty parts without white space and without a further \<open>@\<close>. The form data
  \<^verbatim>\<open>{name: "", email: "x@y.com"}\<close> is reported with \<^verbatim>\<open>"Name is required"\<close>, the form data
  \<^verbatim>\<open>{name: "A", email: "not-an-email"}\<close> with \<^verbatim>\<open>"Invalid email format"\<close>. Whenever
  something is reported for the body of a \<open>POST\<close>, the handler answers 400 with the error
  text \<^verbatim>\<open>"Validation failed: "\<close> followed by the messages joined by \<^verbatim>\<open>", "\<close>, sends
  nothing and leaves the cache alone.
\<close>

theorem validation_rules:
  "(validateFormData fd = [] \<longleftrightarrow>
      (\<exists>n local domain tld.
         field_of fd ''name'' = Some n \<and> (\<exists>c\<in>set n. \<not> isWhiteSpace c)
       \<and> field_of fd ''email'' = Some (local @ [0x40] @ domain @ [0x2E] @ tld)
       \<and> local \<noteq> [] \<and> domain \<noteq> [] \<and> tld \<noteq> []
       \<and> (\<forall>x\<in>set (local @ domain @ tld). \<not> isWhiteSpace x \<and> x \<noteq> 0x40)))
 \<and> lit ''Name is required''
      \<in> set (validateFormData [lit ''name'' \<mapsto> [], lit ''email'' \<mapsto> lit ''x@y.com''])
 \<and> lit ''Invalid email format''
      \<in> set (validateFormData [lit ''name'' \<mapsto> lit ''A'', lit ''email'' \<mapsto> lit ''not-an-email''])
 \<and> (http_method req = lit ''POST'' \<and> validateFormData (parseFormData w (body req)) \<noteq> [] \<longrightarrow>
      handler w req c =
        (respond 400
           (Failure (lit ''Validation failed: ''
                       @ join (lit '', '') (validateFormData (parseFormData w (body req))))
                    (now_respond w)),
         c, []))"
proof -
  have 1: "lit ''Name is required''
      \<in> set (validateFormData [lit ''name'' \<mapsto> [], lit ''email'' \<mapsto> lit ''x@y.com''])"
    by (simp add: validateFormData_def field_of_def lit_def Let_def)
  have 2: "lit ''Invalid email format''
      \<in> set (validateFormData [lit ''name'' \<mapsto> lit ''A'', lit ''email'' \<mapsto> lit ''not-an-email''])"
    by (simp add: validateFormData_def field_of_def lit_def Let_def emailRegex_def
        notSpaceOrAt_def isWhiteSpace_def trim_def)
  show ?thesis
    using validate_shape [of fd] 1 2 handler_invalid [of req w c] by blast
qed

theorem validation_rules_witness:
  "handler (mock_world Rejected)
     \<lparr>http_method = lit ''POST'', body = Fields [lit ''name'' \<mapsto> [], lit ''email'' \<mapsto> lit ''x@y.com'']\<rparr>
     accessTokenCache =
     (respond 400 (Failure (lit ''Validation failed: Name is required'') 3000), accessTokenCache, [])"
proof -
  let ?w = "mock_world Rejected"
  let ?req = "\<lparr>http_method = lit ''POST'',
               body = Fields [lit ''name'' \<mapsto> [], lit ''email'' \<mapsto> lit ''x@y.com'']\<rparr>"
  have v: "validateFormData (parseFormData ?w (body ?req)) = [lit ''Name is required'']"
    by (simp add: parseFormData_def validateFormData_def field_of_def lit_def Let_def
        emailRegex_def notSpaceOrAt_def isWhiteSpace_def trim_def)
  have a: "http_method ?req = lit ''POST'' \<and> validateFormData (parseFormData ?w (body ?req)) \<noteq> []"
    unfolding v by simp
  have n: "now_respond ?w = 3000" by (simp add: mock_world_def granting_world_def)
  from validation_rules [where req = ?req and w = ?w and c = accessTokenCache] a
  have "handler ?w ?req accessTokenCache =
        (respond 400
           (Failure (lit ''Validation failed: ''
                       @ join (lit '', '') (validateFormData (parseFormData ?w (body ?req))))
                    (now_respond ?w)),
         accessTokenCache, [])"
    by blast
  then show ?thesis unfolding v n by (simp add: lit_def)
qed

text \<open>
  Claim C10. When the email field is not empty and consists of white space only,
  \<open>validateFormData\<close> reports both \<^verbatim>\<open>"Email is required"\<close> and
  \<^verbatim>\<open>"Invalid email format"\<close>, as the last two messages of its list; with a name that is
  not blank they are the whole list, and the answer of the handler to such a \<open>POST\<close> is
  400 with both messages joined in its error text.
\<close>

theorem blank_email_reported_twice:
  assumes "field_of fd ''email'' = Some e" and "e \<noteq> []" and "\<forall>c\<in>set e. isWhiteSpace c"
  shows "lit ''Email is required'' \<in> set (validateFormData fd)
       \<and> lit ''Invalid email format'' \<in> set (validateFormData fd)
       \<and> (\<exists>pre. validateFormData fd = pre @ [lit ''Email is required'', lit ''Invalid email format''])
       \<and> (\<not> blank (field_of fd ''name'') \<longrightarrow>
            validateFormData fd = [lit ''Email is required'', lit ''Invalid email format''])
       \<and> (http_method req = lit ''POST'' \<and> parseFormData w (body req) = fd \<longrightarrow>
            fst (handler w req c) =
              respond 400 (Failure (lit ''Validation failed: '' @ join (lit '', '') (validateFormData fd))
                                   (now_respond w)))"
proof -
  have m: "malformed (field_of fd ''email'')" and b: "blank (field_of fd ''email'')"
    using assms whitespace_no_email [of e] by (simp_all add: trim_empty_iff)
  have 1: "validateFormData fd =
      (if blank (field_of fd ''name'') then [lit ''Name is required''] else [])
      @ [lit ''Email is required'', lit ''Invalid email format'']"
    using m b by (simp add: validateFormData_def Let_def)
  then have ne: "validateFormData fd \<noteq> []" by simp
  have 2: "fst (handler w req c) =
      respond 400 (Failure (lit ''Validation failed: '' @ join (lit '', '') (validateFormData fd))
                           (now_respond w))"
    if "http_method req = lit ''POST'' \<and> parseFormData w (body req) = fd"
    using that ne handler_invalid [of req w c] by simp
  from 1 have 3: "\<exists>pre. validateFormData fd = pre @ [lit ''Email is required'', lit ''Invalid email format'']"
    by blast
  from 1 have 4: "lit ''Email is required'' \<in> set (validateFormData fd)"
    and 5: "lit ''Invalid email format'' \<in> set (validateFormData fd)"
    and 6: "\<not> blank (field_of fd ''name'') \<longrightarrow>
            validateFormData fd = [lit ''Email is required'', lit ''Invalid email format'']"
    by simp_all
  from 2 3 4 5 6 show ?thesis by blast
qed

theorem blank_email_reported_twice_witness:
  "fst (handler (mock_world Rejected)
     \<lparr>http_method = lit ''POST'', body = Fields [lit ''name'' \<mapsto> lit ''A'', lit ''email'' \<mapsto> lit '' '']\<rparr>
     accessTokenCache) =
     respond 400 (Failure (lit ''Validation failed: Email is required, Invalid email format'') 3000)"
proof -
  let ?w = "mock_world Rejected"
  let ?fd = "[lit ''name'' \<mapsto> lit ''A'', lit ''email'' \<mapsto> lit '' '']"
  let ?req = "\<lparr>http_method = lit ''POST'', body = Fields ?fd\<rparr>"
  have a: "field_of ?fd ''email'' = Some (lit '' '')" by (simp add: field_of_def lit_def)
  have b: "lit '' '' \<noteq> []" by (simp add: lit_def)
  have c: "\<forall>c\<in>set (lit '' ''). isWhiteSpace c" by (simp add: lit_def isWhiteSpace_def)
  have d: "\<not> blank (field_of ?fd ''name'')"
    by (simp add: field_of_def lit_def trim_def isWhiteSpace_def)
  have e: "http_method ?req = lit ''POST'' \<and> parseFormData ?w (body ?req) = ?fd"
    by (simp add: parseFormData_def)
  have n: "now_respond ?w = 3000" by (simp add: mock_world_def granting_world_def)
  note t = blank_email_reported_twice [OF a b c, where req = ?req and w = ?w and c = accessTokenCache]
  from t d have v: "validateFormData ?fd = [lit ''Email is required'', lit ''Invalid email format'']"
    by blast
  from t e have "fst (handler ?w ?req accessTokenCache) =
      respond 400 (Failure (lit ''Validation failed: '' @ join (lit '', '') (validateFormData ?fd))
                           (now_respond ?w))"
    by blast
  then show ?thesis unfolding v n by (simp add: lit_def)
qed

end
